theory Spec2Isabelle
  imports Complex_Main "HOL-Library.Sublist"
begin

section \<open>Python strings\<close>

text \<open>
  A Python \<open>str\<close> is modelled as a \<^typ>\<open>string\<close>: one \<^typ>\<open>char\<close> per code point, for the
  code points below 256. \<open>py_isspace\<close> is the set of characters that \<open>str.strip()\<close> removes
  in that range (TAB..CR, FS..US, SPACE, NEL and NBSP).
\<close>

definition py_isspace :: "char \<Rightarrow> bool" where
  "py_isspace c =
     (let n = (of_char c :: nat)
      in (9 \<le> n \<and> n \<le> 13) \<or> (28 \<le> n \<and> n \<le> 32) \<or> n = 133 \<or> n = 160)"

definition py_strip :: "string \<Rightarrow> string" where
  "py_strip s = rev (dropWhile py_isspace (rev (dropWhile py_isspace s)))"

text \<open>\<open>s.replace(' ', '_')\<close>: both arguments are one character long, so this is a map.\<close>

definition replace_space :: "string \<Rightarrow> string" where
  "replace_space s = map (\<lambda>c. if c = CHR '' '' then CHR ''_'' else c) s"

text \<open>\<open>str.lower()\<close> on the code points below 256: A..Z and the accented capitals.\<close>

definition py_lower_char :: "char \<Rightarrow> char" where
  "py_lower_char c =
     (let n = (of_char c :: nat)
      in if (65 \<le> n \<and> n \<le> 90) \<or> (192 \<le> n \<and> n \<le> 222 \<and> n \<noteq> 215)
         then char_of (n + 32) else c)"

definition py_lower :: "string \<Rightarrow> string" where
  "py_lower s = map py_lower_char s"

text \<open>\<open>t in s\<close> on strings is the contiguous-substring test.\<close>

definition py_in :: "string \<Rightarrow> string \<Rightarrow> bool" where
  "py_in t s = sublist t s"

section \<open>Column labels\<close>

text \<open>
  A column label is a string or, for a header-less table, an integer; \<open>load_data\<close> tests
  \<open>isinstance(c, str)\<close> before it normalises a label.
\<close>

datatype label = LStr string | LInt int

text \<open>The body of the loop over \<open>df.columns\<close> in \<open>load_data\<close> of \<open>plot_adr_final.py\<close>.\<close>

fun normalize_column :: "label \<Rightarrow> label" where
  "normalize_column (LStr c) = LStr (replace_space (py_strip c))"
| "normalize_column (LInt i) = LInt i"

section \<open>Paths\<close>

text \<open>
  \<open>pathlib.Path\<close> on a POSIX system: a path is an anchor (empty, one slash or two
  slashes) and the list of its components; empty components and \<open>.\<close> are dropped when a
  string is parsed. \<open>split_sep\<close> is \<open>s.split('/')\<close>.
\<close>

fun split_sep :: "string \<Rightarrow> string list" where
  "split_sep [] = [[]]"
| "split_sep (c # cs) =
     (if c = CHR ''/'' then [] # split_sep cs
      else (case split_sep cs of [] \<Rightarrow> [[c]] | w # ws \<Rightarrow> (c # w) # ws))"

record path =
  anchor :: string
  parts :: "string list"

definition path_anchor :: "string \<Rightarrow> string" where
  "path_anchor s =
     (if take 2 s = ''//'' \<and> take 3 s \<noteq> ''///'' then ''//''
      else if take 1 s = ''/'' then ''/'' else [])"

definition path_parts :: "string \<Rightarrow> string list" where
  "path_parts s = filter (\<lambda>x. x \<noteq> [] \<and> x \<noteq> ''.'') (split_sep s)"

definition Path :: "string \<Rightarrow> path" where
  "Path s = \<lparr>anchor = path_anchor s, parts = path_parts s\<rparr>"

text \<open>\<open>p / s\<close>: an anchored right operand replaces the left one.\<close>

definition joinpath :: "path \<Rightarrow> string \<Rightarrow> path" where
  "joinpath p s =
     (if path_anchor s \<noteq> [] then Path s
      else \<lparr>anchor = anchor p, parts = parts p @ path_parts s\<rparr>)"

fun join_sep :: "string list \<Rightarrow> string" where
  "join_sep [] = []"
| "join_sep [x] = x"
| "join_sep (x # y # ys) = x @ ''/'' @ join_sep (y # ys)"

definition path_str :: "path \<Rightarrow> string" where
  "path_str p = (if anchor p = [] \<and> parts p = [] then ''.'' else anchor p @ join_sep (parts p))"

definition path_name :: "path \<Rightarrow> string" where
  "path_name p = (if parts p = [] then [] else last (parts p))"

section \<open>Tables\<close>

text \<open>
  A cell of a table is a finite number, an infinity, the missing value \<open>NaN\<close> or a string.
  Numbers are exact rationals: rounding and signed zeros of the 64-bit floats are not
  modelled. A table (\<open>pandas.DataFrame\<close>) has its column labels and its rows, each row
  holding one cell per column in the order of the labels; a row is read as if padded with
  \<open>NaN\<close>. The row index is always the default range index.
\<close>

datatype cell = Num rat | PosInf | NegInf | NaN | Str string

datatype error =
    KeyError | ValueError | TypeError | InvalidIndexError
  | FileNotFoundError | FileExistsError | PermissionError | EmptyDataError | ParserError
  | UnicodeDecodeError

record frame =
  columns :: "label list"
  rows :: "cell list list"

definition cell_of :: "cell list \<Rightarrow> nat \<Rightarrow> cell" where
  "cell_of r i = (if i < length r then r ! i else NaN)"

definition fit :: "nat \<Rightarrow> cell list \<Rightarrow> cell list" where
  "fit n r = take n r @ replicate (n - length r) NaN"

fun positions_from :: "nat \<Rightarrow> label \<Rightarrow> label list \<Rightarrow> nat list" where
  "positions_from i c [] = []"
| "positions_from i c (x # xs) =
     (if x = c then i # positions_from (Suc i) c xs else positions_from (Suc i) c xs)"

definition positions :: "label \<Rightarrow> label list \<Rightarrow> nat list" where
  "positions c cs = positions_from 0 c cs"

text \<open>
  \<open>df[c]\<close> for a label: \<open>KeyError\<close> when no column has the label, else the column as a
  list of cells. Where a label occurs more than once the first such column is read; the
  tables that \<open>pd.read_csv\<close> returns have pairwise distinct labels.
\<close>

definition getitem :: "frame \<Rightarrow> label \<Rightarrow> error + cell list" where
  "getitem df c =
     (case positions c (columns df) of
        [] \<Rightarrow> Inl KeyError
      | i # _ \<Rightarrow> Inr (map (\<lambda>r. cell_of r i) (rows df)))"

text \<open>The value a row holds under a label, \<open>NaN\<close> when the table has no such column.\<close>

definition row_value :: "frame \<Rightarrow> cell list \<Rightarrow> label \<Rightarrow> cell" where
  "row_value df r c = (case positions c (columns df) of [] \<Rightarrow> NaN | i # _ \<Rightarrow> cell_of r i)"

text \<open>
  \<open>df[c] = values\<close>: every column labelled \<open>c\<close> is overwritten; when there is none, a new
  last column is added. The value of row \<open>k\<close> is \<open>vs k\<close>.
\<close>

fun set_cells :: "nat list \<Rightarrow> cell \<Rightarrow> cell list \<Rightarrow> cell list" where
  "set_cells [] v r = r"
| "set_cells (i # is) v r = set_cells is v (r[i := v])"

fun setitem_rows :: "nat \<Rightarrow> nat list \<Rightarrow> nat \<Rightarrow> (nat \<Rightarrow> cell) \<Rightarrow> cell list list \<Rightarrow> cell list list" where
  "setitem_rows n ps k vs [] = []"
| "setitem_rows n ps k vs (r # rs) =
     (if ps = [] then fit n r @ [vs k] else set_cells ps (vs k) (fit n r))
     # setitem_rows n ps (Suc k) vs rs"

definition setitem :: "frame \<Rightarrow> label \<Rightarrow> (nat \<Rightarrow> cell) \<Rightarrow> frame" where
  "setitem df c vs =
     (let ps = positions c (columns df)
      in \<lparr>columns = (if ps = [] then columns df @ [c] else columns df),
          rows = setitem_rows (length (columns df)) ps 0 vs (rows df)\<rparr>)"

text \<open>\<open>df[c] = s\<close> for a column \<open>s\<close> of the same table, and for a scalar.\<close>

definition setitem_series :: "frame \<Rightarrow> label \<Rightarrow> cell list \<Rightarrow> frame" where
  "setitem_series df c s = setitem df c (cell_of s)"

definition setitem_scalar :: "frame \<Rightarrow> label \<Rightarrow> cell \<Rightarrow> frame" where
  "setitem_scalar df c v = setitem df c (\<lambda>_. v)"

text \<open>\<open>df.empty\<close>: one of the two axes has length zero.\<close>

definition frame_empty :: "frame \<Rightarrow> bool" where
  "frame_empty df = (rows df = [] \<or> columns df = [])"

text \<open>
  \<open>s == v\<close> on a column, \<open>m1 & m2\<close> on masks and \<open>df[mask]\<close>. \<open>NaN\<close> equals nothing,
  itself included.
\<close>

definition cell_eq :: "cell \<Rightarrow> cell \<Rightarrow> bool" where
  "cell_eq a b = (a = b \<and> a \<noteq> NaN)"

definition series_eq :: "cell list \<Rightarrow> cell \<Rightarrow> bool list" where
  "series_eq s v = map (\<lambda>x. cell_eq x v) s"

definition mask_and :: "bool list \<Rightarrow> bool list \<Rightarrow> bool list" where
  "mask_and m1 m2 = map (\<lambda>(a, b). a \<and> b) (zip m1 m2)"

definition bool_index :: "frame \<Rightarrow> bool list \<Rightarrow> frame" where
  "bool_index df m = \<lparr>columns = columns df, rows = map fst (filter snd (zip (rows df) m))\<rparr>"

section \<open>plot\_adr\_final.py: load\_data\<close>

text \<open>
  \<open>pd.read_csv\<close> is the environment's: \<open>read_csv path\<close> is the exception it raises or the
  table it parses.
\<close>

type_synonym csv_reader = "string \<Rightarrow> error + frame"

definition alg :: label where
  "alg = LStr ''alg''"

definition candidate_columns :: "string list" where
  "candidate_columns = [''Algorithm'', ''algorithm'', ''Algorithme'', ''algorithme'']"

definition known_algs :: "string list" where
  "known_algs = [''ADR-AVG'', ''ADR-Lite'', ''ADR-MAX'', ''No-ADR'', ''ADR_AVG'', ''ADR_MAX'', ''No_ADR'']"

text \<open>The search of the file name for an algorithm token: \<open>found\<close>, or \<open>None\<close>.\<close>

definition alg_from_name :: "string \<Rightarrow> string option" where
  "alg_from_name fname =
     (case find (\<lambda>ka. py_in ka fname) known_algs of
        Some ka \<Rightarrow> Some ka
      | None \<Rightarrow>
          (let lower = py_lower fname
           in if py_in ''adr-lite'' lower then Some ''ADR-Lite''
              else if py_in ''adr-avg'' lower \<or> py_in ''adr_avg'' lower then Some ''ADR-AVG''
              else if py_in ''adr-max'' lower \<or> py_in ''adr_max'' lower then Some ''ADR-MAX''
              else if py_in ''no-adr'' lower \<or> py_in ''no_adr'' lower then Some ''No-ADR''
              else None))"

text \<open>
  The tokens the second, case-insensitive search looks for in the lower-cased file name.
  Every entry of \<open>known_algs\<close> is one of them once lower-cased.
\<close>

definition fallback_tokens :: "string list" where
  "fallback_tokens =
     [''adr-lite'', ''adr-avg'', ''adr_avg'', ''adr-max'', ''adr_max'', ''no-adr'', ''no_adr'']"

definition normalize_columns :: "frame \<Rightarrow> frame" where
  "normalize_columns df = df\<lparr>columns := map normalize_column (columns df)\<rparr>"

text \<open>
  The loop over the candidate labels. \<open>df[candidate]\<close> is a table, not a column, when the
  normalisation has made two labels equal, and assigning it to one column raises
  \<open>ValueError\<close>.
\<close>

definition copy_candidate :: "frame \<Rightarrow> error + frame" where
  "copy_candidate df =
     (case find (\<lambda>c. LStr c \<in> set (columns df)) candidate_columns of
        None \<Rightarrow> Inr df
      | Some c \<Rightarrow>
          (case positions (LStr c) (columns df) of
             [i] \<Rightarrow> Inr (setitem_series df alg (map (\<lambda>r. cell_of r i) (rows df)))
           | _ \<Rightarrow> Inl ValueError))"

definition load_data_frame :: "frame \<Rightarrow> string \<Rightarrow> error + frame" where
  "load_data_frame raw file_path =
     (let df = normalize_columns raw
      in case (if alg \<notin> set (columns df) then copy_candidate df else Inr df) of
           Inl e \<Rightarrow> Inl e
         | Inr df1 \<Rightarrow>
             (if alg \<notin> set (columns df1)
              then Inr (setitem_scalar df1 alg
                     (Str (case alg_from_name (path_name (Path file_path)) of
                             Some found \<Rightarrow> found | None \<Rightarrow> ''Unknown'')))
              else Inr df1))"

definition load_data :: "csv_reader \<Rightarrow> string \<Rightarrow> error + frame" where
  "load_data read_csv file_path =
     (case read_csv file_path of
        Inl e \<Rightarrow> Inl e
      | Inr raw \<Rightarrow> load_data_frame raw file_path)"

section \<open>plot\_density\_scenario.py: loading and filtering\<close>

definition load_data_density :: "csv_reader \<Rightarrow> string \<Rightarrow> error + frame" where
  "load_data_density read_csv csv_path = read_csv csv_path"

definition MobilitySpeed :: label where
  "MobilitySpeed = LStr ''MobilitySpeed''"

definition TrafficInterval :: label where
  "TrafficInterval = LStr ''TrafficInterval''"

definition MaxRandomLoss :: label where
  "MaxRandomLoss = LStr ''MaxRandomLoss''"

definition NumDevices :: label where
  "NumDevices = LStr ''NumDevices''"

definition Algorithm :: label where
  "Algorithm = LStr ''Algorithm''"

definition PDR_Percent :: label where
  "PDR_Percent = LStr ''PDR_Percent''"

definition AvgEnergy_mJ :: label where
  "AvgEnergy_mJ = LStr ''AvgEnergy_mJ''"

definition filter_data :: "frame \<Rightarrow> cell \<Rightarrow> cell \<Rightarrow> cell \<Rightarrow> error + frame" where
  "filter_data df mobility_speed traffic_interval max_random_loss =
     (case getitem df MobilitySpeed of
        Inl e \<Rightarrow> Inl e
      | Inr s1 \<Rightarrow>
     (case getitem df TrafficInterval of
        Inl e \<Rightarrow> Inl e
      | Inr s2 \<Rightarrow>
     (case getitem df MaxRandomLoss of
        Inl e \<Rightarrow> Inl e
      | Inr s3 \<Rightarrow>
          Inr (bool_index df
                 (mask_and (mask_and (series_eq s1 mobility_speed)
                                     (series_eq s2 traffic_interval))
                           (series_eq s3 max_random_loss))))))"


section \<open>Grouped means\<close>

text \<open>
  \<open>Series.unique()\<close> keeps the first occurrence of every value, in order.
\<close>

fun unique :: "'a list \<Rightarrow> 'a list" where
  "unique [] = []"
| "unique (x # xs) = x # filter (\<lambda>y. y \<noteq> x) (unique xs)"





text \<open>
  Arithmetic on numeric cells, as the floats do it apart from rounding: an infinity absorbs
  finite numbers, opposite infinities cancel to \<open>NaN\<close>, and a division by zero is an
  infinity or \<open>NaN\<close>. A string operand raises \<open>TypeError\<close>.
\<close>

fun is_str :: "cell \<Rightarrow> bool" where
  "is_str (Str s) = True"
| "is_str c = False"


fun cell_div_num :: "cell \<Rightarrow> cell \<Rightarrow> cell" where
  "cell_div_num (Num x) (Num y) =
     (if y \<noteq> 0 then Num (x / y)
      else if 0 < x then PosInf else if x < 0 then NegInf else NaN)"
| "cell_div_num (Num x) PosInf = Num 0"
| "cell_div_num (Num x) NegInf = Num 0"
| "cell_div_num PosInf (Num y) = (if 0 \<le> y then PosInf else NegInf)"
| "cell_div_num NegInf (Num y) = (if 0 \<le> y then NegInf else PosInf)"
| "cell_div_num a b = NaN"

definition cell_div :: "cell \<Rightarrow> cell \<Rightarrow> error + cell" where
  "cell_div a b = (if is_str a \<or> is_str b then Inl TypeError else Inr (cell_div_num a b))"








section \<open>plot\_adr\_final.py: finding the summary files\<close>

text \<open>
  The file system is the environment's. \<open>path_exists p\<close> is \<open>p.exists()\<close>, \<open>glob d pat\<close>
  the list \<open>d.glob(pat)\<close> yields and \<open>rglob d pat\<close> the list \<open>d.rglob(pat)\<close> yields, in the
  order the operating system returns the entries. Errors of the operating system other
  than a missing file (a directory that may not be read) are not modelled.
\<close>

record filesystem =
  path_exists :: "path \<Rightarrow> bool"
  glob :: "path \<Rightarrow> string \<Rightarrow> path list"
  rglob :: "path \<Rightarrow> string \<Rightarrow> path list"





text \<open>
  \<open>find_all_summary_paths\<close>. \<open>repo_root\<close> is
  \<open>Path(__file__).resolve().parent.parent\<close>, the environment's. \<open>collect_base\<close> is one
  round of the loop over the two base names, \<open>collected_paths\<close> the list \<open>paths\<close> when the
  loops are over, and \<open>dedup_loop\<close> the last loop, with the set \<open>seen\<close> and the list
  \<open>unique\<close> as its state.
\<close>

definition collect_base :: "filesystem \<Rightarrow> path \<Rightarrow> string \<Rightarrow> string \<Rightarrow> string list" where
  "collect_base fs repo_root scenario base_name =
     (let candidates_bases =
            [joinpath (Path base_name) ''summaries'',
             joinpath (joinpath repo_root base_name) ''summaries'']
      in concat (map (\<lambda>base.
                   (let alt = joinpath base scenario
                    in if path_exists fs alt then map path_str (glob fs alt ''*.csv'') else []))
                 candidates_bases)
         @ concat (map (\<lambda>base.
                   (if path_exists fs base
                    then map path_str (rglob fs base (''*'' @ scenario @ ''*.csv''))
                    else []))
                 candidates_bases))"

definition collected_paths :: "filesystem \<Rightarrow> path \<Rightarrow> string \<Rightarrow> string list" where
  "collected_paths fs repo_root scenario =
     map path_str (glob fs (Path ''.'') (''*'' @ scenario @ ''*.csv''))
     @ concat (map (collect_base fs repo_root scenario) [''resultsfinal'', ''resultsfinal2''])"

fun dedup_loop :: "string list \<Rightarrow> string set \<times> string list \<Rightarrow> string set \<times> string list" where
  "dedup_loop [] st = st"
| "dedup_loop (p # ps) (seen, uniq) =
     (if p \<notin> seen then dedup_loop ps (insert p seen, uniq @ [p])
      else dedup_loop ps (seen, uniq))"

definition find_all_summary_paths :: "filesystem \<Rightarrow> path \<Rightarrow> string \<Rightarrow> string list" where
  "find_all_summary_paths fs repo_root scenario =
     snd (dedup_loop (collected_paths fs repo_root scenario) ({}, []))"

text \<open>
  The position of the first occurrence of a value in a list; it states the order of the
  result and is not part of the program.
\<close>

fun first_index :: "'a list \<Rightarrow> 'a \<Rightarrow> nat" where
  "first_index [] x = 0"
| "first_index (y # ys) x = (if x = y then 0 else Suc (first_index ys x))"

section \<open>Runs: what a function prints, calls and raises\<close>

text \<open>
  A function that prints and draws is modelled by its run: the events it produces, in
  order, and the exception it ends with, if any. What it prints is named by a
  \<open>message\<close>, with the values the text interpolates; a banner or a summary of several
  lines is one message. The work done with \<open>matplotlib\<close>
  and the file system is not modelled: it is a \<open>call\<close> in the run, and the environment
  tells which exception the call raises, if any.
\<close>

datatype message =
    Chargement string
  | Valeurs_header
  | Valeurs label
  | Valeurs_footer
  | Generation_de nat
  | SKIP cell cell cell
  | OK cell cell cell
  | Resume nat nat string
  | Filtrage cell cell cell
  | ERREUR_aucune_donnee
  | Utilisez_list
  | Nombre_enregistrements nat
  | Titre
  | Chargement_des_donnees
  | Aucun_fichier_trouve string
  | Fichiers_charges nat string nat
  | Fichiers_non_charges nat
  | Aucun_fichier_de_donnees
  | Fichiers_charges_avec_succes nat
  | Pas_de_donnees_mobility0_densite

datatype call =
    Mkdir string
  | Print_summary_table frame
  | Plot_comparison frame cell cell cell string
  | Plot_bar_comparison frame cell cell cell string
  | Density_mobility0_figures frame string
  | Efficiency_figure frame string string
  | Generate_plots "(string \<times> frame) list"

datatype event = Print message | Call call

type_synonym run = "event list \<times> error option"

definition say :: "message \<Rightarrow> run" where
  "say m = ([Print m], None)"

definition do_call :: "(call \<Rightarrow> error option) \<Rightarrow> call \<Rightarrow> run" where
  "do_call orc c = ([Call c], orc c)"

text \<open>One statement after another: the second runs only when the first has not raised.\<close>

definition seq :: "run \<Rightarrow> run \<Rightarrow> run" where
  "seq a b = (case snd a of Some e \<Rightarrow> a | None \<Rightarrow> (fst a @ fst b, snd b))"

definition prepend :: "event list \<Rightarrow> event list \<times> 'a \<Rightarrow> event list \<times> 'a" where
  "prepend t r = (t @ fst r, snd r)"

fun is_plot :: "event \<Rightarrow> bool" where
  "is_plot (Call (Mkdir d)) = False"
| "is_plot (Call c) = True"
| "is_plot (Print m) = False"

text \<open>
  The environment of a run: the file system, the directory above the script's,
  \<open>pd.read_csv\<close>, the parser \<open>pd.to_numeric\<close> applies to a string, and the exceptions of
  the calls.
\<close>

record env =
  env_fs :: filesystem
  env_repo_root :: path
  env_read_csv :: csv_reader
  env_parse_numeric :: "string \<Rightarrow> cell"
  env_raises :: "call \<Rightarrow> error option"

section \<open>plot\_adr\_final.py: the loading loop of main\<close>

text \<open>
  \<open>pd.concat(frames, ignore_index=True)\<close>. Tables with the same labels are stacked. With
  different labels the result has every label once, in the order of first occurrence,
  and \<open>NaN\<close> where a table lacks a column; a table whose labels are not pairwise distinct
  cannot be laid out anew, and \<open>InvalidIndexError\<close> is raised.
\<close>

definition realign :: "label list \<Rightarrow> frame \<Rightarrow> cell list list" where
  "realign cols f = map (\<lambda>r. map (row_value f r) cols) (rows f)"

definition pd_concat :: "frame list \<Rightarrow> error + frame" where
  "pd_concat frames =
     (case frames of
        [] \<Rightarrow> Inl ValueError
      | f # _ \<Rightarrow>
          (if list_all (\<lambda>g. columns g = columns f) frames
           then Inr \<lparr>columns = columns f, rows = concat (map rows frames)\<rparr>
           else if list_ex (\<lambda>g. \<not> distinct (columns g)) frames then Inl InvalidIndexError
           else (let cols = unique (concat (map columns frames))
                 in Inr \<lparr>columns = cols, rows = concat (map (realign cols) frames)\<rparr>)))"

definition files_table :: "(string \<times> string) list" where
  "files_table =
     [(''mobilite'', ''summary_mobilite_run1.csv''),
      (''density'', ''summary_density_run1.csv''),
      (''intervalle_d_envoie'', ''summary_intervalle_d_envoie_run1.csv''),
      (''sigma'', ''summary_sigma_run1.csv'')]"

text \<open>
  The inner loop over \<open>found_paths\<close>, with its four variables as the state. Every
  exception of the model is an \<open>Exception\<close> in Python, so \<open>except Exception\<close> catches it.
\<close>

record loading =
  df_list :: "frame list"
  loaded_paths :: "string list"
  failed_paths :: "(string \<times> error) list"
  total_rows :: nat

definition loading_start :: loading where
  "loading_start = \<lparr>df_list = [], loaded_paths = [], failed_paths = [], total_rows = 0\<rparr>"

fun load_found :: "csv_reader \<Rightarrow> string list \<Rightarrow> loading \<Rightarrow> loading" where
  "load_found rd [] st = st"
| "load_found rd (p # ps) st =
     (case load_data rd p of
        Inr df_part \<Rightarrow>
          load_found rd ps
            (st\<lparr>df_list := df_list st @ [df_part],
                loaded_paths := loaded_paths st @ [p],
                total_rows := total_rows st + length (rows df_part)\<rparr>)
      | Inl e \<Rightarrow> load_found rd ps (st\<lparr>failed_paths := failed_paths st @ [(p, e)]\<rparr>))"

text \<open>\<open>dfs[scenario] = ...\<close> on a dictionary that keeps the order of insertion.\<close>

fun dict_set :: "'k \<Rightarrow> 'v \<Rightarrow> ('k \<times> 'v) list \<Rightarrow> ('k \<times> 'v) list" where
  "dict_set k v [] = [(k, v)]"
| "dict_set k v ((k', v') # kvs) = (if k' = k then (k, v) # kvs else (k', v') # dict_set k v kvs)"

text \<open>The table of one scenario, from the tables that loaded.\<close>

definition scenario_frame :: "frame list \<Rightarrow> frame option" where
  "scenario_frame dl =
     (case dl of
        [] \<Rightarrow> None
      | first # _ \<Rightarrow> (case pd_concat dl of Inr d \<Rightarrow> Some d | Inl e \<Rightarrow> Some first))"

fun load_scenarios ::
  "env \<Rightarrow> (string \<times> string) list \<Rightarrow> (string \<times> frame) list \<Rightarrow> event list \<times> (string \<times> frame) list" where
  "load_scenarios w [] dfs = ([], dfs)"
| "load_scenarios w ((scenario, filename) # rest) dfs =
     (let found_paths = find_all_summary_paths (env_fs w) (env_repo_root w) scenario
      in if found_paths = []
         then prepend [Print (Aucun_fichier_trouve scenario)] (load_scenarios w rest dfs)
         else
           (let st = load_found (env_read_csv w) found_paths loading_start
            in case scenario_frame (df_list st) of
                 None \<Rightarrow> load_scenarios w rest dfs
               | Some d \<Rightarrow>
                   prepend
                     ([Print (Fichiers_charges (length (loaded_paths st)) scenario (total_rows st))]
                      @ (if failed_paths st \<noteq> []
                         then [Print (Fichiers_non_charges (length (failed_paths st)))] else []))
                     (load_scenarios w rest (dict_set scenario d dfs))))"

text \<open>
  \<open>main\<close>. Everything after the output directory is made (the plotting functions and
  the summary table) is the one call \<open>Generate_plots\<close>, on the dictionary \<open>dfs\<close>.
\<close>

definition main_adr :: "env \<Rightarrow> run" where
  "main_adr w =
     (let loaded = load_scenarios w files_table [];
          dfs = snd loaded;
          t = [Print Titre, Print Chargement_des_donnees] @ fst loaded
      in if dfs = [] then (t @ [Print Aucun_fichier_de_donnees], None)
         else seq (t @ [Print (Fichiers_charges_avec_succes (length dfs))], None)
                (seq (do_call (env_raises w) (Mkdir ''output''))
                     (do_call (env_raises w) (Generate_plots dfs))))"

text \<open>
  The tables of the paths that load, and the failures of the others, in the order of the
  paths: these two definitions state the property and are not part of the program.
\<close>

definition loaded_frames :: "csv_reader \<Rightarrow> string list \<Rightarrow> frame list" where
  "loaded_frames rd ps = concat (map (\<lambda>p. case load_data rd p of Inr d \<Rightarrow> [d] | Inl e \<Rightarrow> []) ps)"

definition failed_loads :: "csv_reader \<Rightarrow> string list \<Rightarrow> (string \<times> error) list" where
  "failed_loads rd ps = concat (map (\<lambda>p. case load_data rd p of Inr d \<Rightarrow> [] | Inl e \<Rightarrow> [(p, e)]) ps)"

section \<open>plot\_adr\_final.py: two plotting functions\<close>





text \<open>
  \<open>plot_energy_efficiency\<close> assigns to a column of its argument, the caller's table: the
  model returns that table as it is when the function ends, and the run. The figure is the
  call \<open>Efficiency_figure\<close>.
\<close>

fun series_div :: "cell list \<Rightarrow> cell list \<Rightarrow> error + cell list" where
  "series_div (a # as) (b # bs) =
     (case cell_div a b of
        Inl e \<Rightarrow> Inl e
      | Inr q \<Rightarrow> (case series_div as bs of Inl e \<Rightarrow> Inl e | Inr qs \<Rightarrow> Inr (q # qs)))"
| "series_div as bs = Inr []"

definition Efficiency :: label where
  "Efficiency = LStr ''Efficiency''"

definition plot_energy_efficiency :: "env \<Rightarrow> frame \<Rightarrow> string \<Rightarrow> string \<Rightarrow> frame \<times> run" where
  "plot_energy_efficiency w df scenario_name output_dir =
     (case env_raises w (Mkdir output_dir) of
        Some e \<Rightarrow> (df, [Call (Mkdir output_dir)], Some e)
      | None \<Rightarrow>
     (case getitem df PDR_Percent of
        Inl e \<Rightarrow> (df, [Call (Mkdir output_dir)], Some e)
      | Inr pdr \<Rightarrow>
     (case getitem df AvgEnergy_mJ of
        Inl e \<Rightarrow> (df, [Call (Mkdir output_dir)], Some e)
      | Inr energy \<Rightarrow>
     (case series_div pdr energy of
        Inl e \<Rightarrow> (df, [Call (Mkdir output_dir)], Some e)
      | Inr q \<Rightarrow>
          (let df' = setitem_series df Efficiency q
           in (df', prepend [Call (Mkdir output_dir)]
                      (do_call (env_raises w) (Efficiency_figure df' scenario_name output_dir))))))))"

section \<open>plot\_density\_scenario.py: main\<close>

text \<open>
  \<open>get_unique_values\<close>: a missing column raises \<open>KeyError\<close>, and \<open>sorted\<close> raises
  \<open>TypeError\<close> when it has to compare a string with a number. The text of the lines is
  not modelled.
\<close>

definition print_sorted_unique :: "frame \<Rightarrow> label \<Rightarrow> run" where
  "print_sorted_unique df c =
     (case getitem df c of
        Inl e \<Rightarrow> ([], Some e)
      | Inr s \<Rightarrow>
          (if list_ex is_str (unique s) \<and> list_ex (\<lambda>x. \<not> is_str x) (unique s)
           then ([], Some TypeError)
           else say (Valeurs c)))"

definition print_unique :: "frame \<Rightarrow> label \<Rightarrow> run" where
  "print_unique df c =
     (case getitem df c of Inl e \<Rightarrow> ([], Some e) | Inr s \<Rightarrow> say (Valeurs c))"

definition get_unique_values :: "frame \<Rightarrow> run" where
  "get_unique_values df =
     seq (say Valeurs_header)
    (seq (print_sorted_unique df MobilitySpeed)
    (seq (print_sorted_unique df TrafficInterval)
    (seq (print_sorted_unique df MaxRandomLoss)
    (seq (print_sorted_unique df NumDevices)
    (seq (print_unique df Algorithm)
         (say Valeurs_footer))))))"

text \<open>
  \<open>generate_all_plots\<close>: the three nested loops run over the combinations in
  \<open>combinations\<close>, with the counters \<open>generated\<close> and \<open>skipped\<close> as the state.
\<close>

definition combinations :: "cell list \<Rightarrow> cell list \<Rightarrow> cell list \<Rightarrow> (cell \<times> cell \<times> cell) list" where
  "combinations ms is ls =
     concat (map (\<lambda>m. concat (map (\<lambda>i. map (\<lambda>l. (m, i, l)) ls) is)) ms)"

fun generate_loop ::
  "(call \<Rightarrow> error option) \<Rightarrow> frame \<Rightarrow> string \<Rightarrow> bool \<Rightarrow> (cell \<times> cell \<times> cell) list
     \<Rightarrow> nat \<Rightarrow> nat \<Rightarrow> event list \<times> (error + nat \<times> nat)" where
  "generate_loop orc df output_dir include_bar [] generated skipped = ([], Inr (generated, skipped))"
| "generate_loop orc df output_dir include_bar ((m, i, l) # rest) generated skipped =
     (case filter_data df m i l of
        Inl e \<Rightarrow> ([], Inl e)
      | Inr filtered_df \<Rightarrow>
          (if frame_empty filtered_df
           then prepend [Print (SKIP m i l)]
                  (generate_loop orc df output_dir include_bar rest generated (Suc skipped))
           else
             (case seq (say (OK m i l))
                    (seq (do_call orc (Plot_comparison filtered_df m i l output_dir))
                         (if include_bar
                          then do_call orc (Plot_bar_comparison filtered_df m i l output_dir)
                          else ([], None))) of
                (t, Some e) \<Rightarrow> (t, Inl e)
              | (t, None) \<Rightarrow>
                  prepend t
                    (generate_loop orc df output_dir include_bar rest (Suc generated) skipped))))"

definition generate_all_plots ::
  "(call \<Rightarrow> error option) \<Rightarrow> frame \<Rightarrow> cell list \<Rightarrow> cell list \<Rightarrow> cell list \<Rightarrow> string \<Rightarrow> bool \<Rightarrow> run" where
  "generate_all_plots orc df mobility_speeds traffic_intervals max_random_losses output_dir include_bar =
     (let total_combinations =
            length mobility_speeds * length traffic_intervals * length max_random_losses
      in case generate_loop orc df output_dir include_bar
                (combinations mobility_speeds traffic_intervals max_random_losses) 0 0 of
           (t, Inl e) \<Rightarrow> (Print (Generation_de total_combinations) # t, Some e)
         | (t, Inr (generated, skipped)) \<Rightarrow>
             (Print (Generation_de total_combinations) # t
                @ [Print (Resume generated skipped output_dir)], None))"

text \<open>The parsed command line. \<open>--mobility\<close>, \<open>--interval\<close> and \<open>--loss\<close> are floats.\<close>

record args =
  arg_csv :: string
  arg_mobility :: cell
  arg_interval :: cell
  arg_loss :: cell
  arg_output :: string
  arg_list :: bool
  arg_bar :: bool
  arg_no_show :: bool
  arg_all :: bool

definition default_args :: args where
  "default_args =
     \<lparr>arg_csv = ''summaries/summary_scenario1.csv'', arg_mobility = Num 0,
      arg_interval = Num 3600, arg_loss = Num 0, arg_output = ''plots'',
      arg_list = False, arg_bar = False, arg_no_show = False, arg_all = False\<rparr>"

definition plot_both :: "(call \<Rightarrow> error option) \<Rightarrow> frame \<Rightarrow> args \<Rightarrow> run" where
  "plot_both orc filtered_df a =
     seq (do_call orc (Plot_comparison filtered_df (arg_mobility a) (arg_interval a) (arg_loss a) (arg_output a)))
         (if arg_bar a
          then do_call orc (Plot_bar_comparison filtered_df (arg_mobility a) (arg_interval a) (arg_loss a) (arg_output a))
          else ([], None))"

definition main_density :: "csv_reader \<Rightarrow> (call \<Rightarrow> error option) \<Rightarrow> args \<Rightarrow> run" where
  "main_density read_csv orc a =
     seq (say (Chargement (arg_csv a)))
       (case load_data_density read_csv (arg_csv a) of
          Inl e \<Rightarrow> ([], Some e)
        | Inr df \<Rightarrow>
            (if arg_list a then get_unique_values df
             else seq (get_unique_values df)
               (if arg_all a
                then generate_all_plots orc df
                       [Num 0, Num (333 / 10), Num 60] [Num 72, Num 145, Num 3600]
                       [Num 0, Num (396 / 100), Num (792 / 100)] (arg_output a) (arg_bar a)
                else seq (say (Filtrage (arg_mobility a) (arg_interval a) (arg_loss a)))
                  (case filter_data df (arg_mobility a) (arg_interval a) (arg_loss a) of
                     Inl e \<Rightarrow> ([], Some e)
                   | Inr filtered_df \<Rightarrow>
                       (if frame_empty filtered_df
                        then seq (say ERREUR_aucune_donnee) (say Utilisez_list)
                        else seq (say (Nombre_enregistrements (length (rows filtered_df))))
                            (seq (do_call orc (Print_summary_table filtered_df))
                                 (if \<not> arg_no_show a then plot_both orc filtered_df a
                                  else plot_both orc filtered_df a)))))))"

section \<open>Example inputs\<close>

definition density_table :: frame where
  "density_table =
     \<lparr>columns = [Algorithm, NumDevices, MobilitySpeed, TrafficInterval, MaxRandomLoss, PDR_Percent, AvgEnergy_mJ],
      rows = [[Str ''ADR-MAX'', Num 100, Num 0, Num 3600, Num 0, Num 90, Num 3],
              [Str ''No-ADR'', Num 100, Num 0, Num 3600, Num 0, Num 80, Num 4],
              [Str ''ADR-MAX'', Num 200, Num 0, Num 72, Num 0, Num 70, Num 5],
              [Str ''ADR-MAX'', Num 200, Num 60, Num 3600, NaN, Num 60, Num 6]]\<rparr>"

definition raw_table :: frame where
  "raw_table = \<lparr>columns = [LStr '' Num Devices'', LStr ''PDR_Percent ''],
                rows = [[Num 100, Num 90], [Num 200, Num 80]]\<rparr>"

definition one_file :: csv_reader where
  "one_file p = (if p = ''results/summary_density_run1.csv'' then Inr raw_table else Inl FileNotFoundError)"

definition example_fs :: filesystem where
  "example_fs =
     \<lparr>path_exists = (\<lambda>p. p \<in> set [Path ''summary_density_run1.csv'',
                                     Path ''resultsfinal'',
                                     Path ''resultsfinal/summaries'',
                                     Path ''resultsfinal/summaries/density'',
                                     Path ''resultsfinal/summaries/density/summary_density_run1.csv'',
                                     Path ''resultsfinal/summaries/density/summary_density_run2.csv'']),
      glob = (\<lambda>d pat.
                if d = Path ''.'' \<and> pat = ''*density*.csv'' then [Path ''summary_density_run1.csv'']
                else if d = Path ''resultsfinal/summaries/density''
                        \<and> pat \<in> set [''*.csv'', ''summary*density*run*.csv'', ''summary_*_run*.csv'']
                then [Path ''resultsfinal/summaries/density/summary_density_run1.csv'',
                      Path ''resultsfinal/summaries/density/summary_density_run2.csv'']
                else []),
      rglob = (\<lambda>d pat.
                if d = Path ''resultsfinal/summaries'' \<and> pat = ''*density*.csv''
                then [Path ''resultsfinal/summaries/density/summary_density_run2.csv'',
                      Path ''resultsfinal/summaries/density/summary_density_run1.csv'']
                else [])\<rparr>"

definition adr_table :: frame where
  "adr_table =
     \<lparr>columns = [alg, NumDevices, PDR_Percent, AvgEnergy_mJ],
      rows = [[Str ''ADR-MAX'', Num 100, Num 90, Num 3],
              [Str ''ADR-MAX'', Num 100, Num 80, Num 5],
              [Str ''No-ADR'', Num 100, Num 50, Num 4],
              [Str ''ADR-MAX'', Num 200, Num 70, Num 2],
              [Str ''No-ADR'', Num 200, NaN, Num 2]]\<rparr>"

definition clash_first :: frame where
  "clash_first = \<lparr>columns = [LStr ''x y'', LStr ''x_y''], rows = [[Num 1, Num 2]]\<rparr>"

definition clash_second :: frame where
  "clash_second = \<lparr>columns = [LStr ''z''], rows = [[Num 3]]\<rparr>"

definition clash_reader :: csv_reader where
  "clash_reader p =
     (if p = ''density_a.csv'' then Inr clash_first
      else if p = ''density_b.csv'' then Inr clash_second
      else Inl FileNotFoundError)"

definition clash_glob :: "path \<Rightarrow> string \<Rightarrow> path list" where
  "clash_glob d pat =
     (if d = Path ''.'' \<and> pat = ''*density*.csv''
      then [Path ''density_a.csv'', Path ''density_b.csv''] else [])"

definition nothing_found :: "path \<Rightarrow> string \<Rightarrow> path list" where
  "nothing_found d pat = []"

definition only_cwd :: "path \<Rightarrow> bool" where
  "only_cwd p = (p = Path ''.'')"

definition no_raise :: "call \<Rightarrow> error option" where
  "no_raise c = None"

definition parse_nothing :: "string \<Rightarrow> cell" where
  "parse_nothing s = NaN"

definition clash_env :: env where
  "clash_env =
     \<lparr>env_fs = \<lparr>path_exists = only_cwd, glob = clash_glob, rglob = nothing_found\<rparr>,
      env_repo_root = Path ''/repo'',
      env_read_csv = clash_reader,
      env_parse_numeric = parse_nothing,
      env_raises = no_raise\<rparr>"

definition run_one :: frame where
  "run_one = \<lparr>columns = [NumDevices, PDR_Percent], rows = [[Num 100, Num 90], [Num 200, Num 80]]\<rparr>"

definition run_two :: frame where
  "run_two = \<lparr>columns = [NumDevices, PDR_Percent], rows = [[Num 100, Num 70]]\<rparr>"

definition runs_reader :: csv_reader where
  "runs_reader p =
     (if p = ''density_run1.csv'' then Inr run_one
      else if p = ''density_broken.csv'' then Inl ParserError
      else if p = ''density_run2.csv'' then Inr run_two
      else Inl FileNotFoundError)"

definition runs_glob :: "path \<Rightarrow> string \<Rightarrow> path list" where
  "runs_glob d pat =
     (if d = Path ''.'' \<and> pat = ''*density*.csv''
      then [Path ''density_run1.csv'', Path ''density_broken.csv'', Path ''density_run2.csv'']
      else [])"

definition runs_env :: env where
  "runs_env =
     \<lparr>env_fs = \<lparr>path_exists = only_cwd, glob = runs_glob, rglob = nothing_found\<rparr>,
      env_repo_root = Path ''/repo'',
      env_read_csv = runs_reader,
      env_parse_numeric = parse_nothing,
      env_raises = no_raise\<rparr>"

definition runs_loaded :: frame where
  "runs_loaded =
     \<lparr>columns = [NumDevices, PDR_Percent, alg],
      rows = [[Num 100, Num 90, Str ''Unknown''], [Num 200, Num 80, Str ''Unknown''],
              [Num 100, Num 70, Str ''Unknown'']]\<rparr>"

definition empty_env :: env where
  "empty_env =
     \<lparr>env_fs = \<lparr>path_exists = only_cwd, glob = nothing_found, rglob = nothing_found\<rparr>,
      env_repo_root = Path ''/repo'',
      env_read_csv = clash_reader,
      env_parse_numeric = parse_nothing,
      env_raises = no_raise\<rparr>"

definition density_reader :: csv_reader where
  "density_reader p =
     (if p = ''summaries/summary_scenario1.csv'' then Inr density_table else Inl FileNotFoundError)"

definition lossy_args :: args where
  "lossy_args = default_args\<lparr>arg_loss := Num 1\<rparr>"



section \<open>Properties of the column-name normalisation\<close>

lemma underscore_not_space: "\<not> py_isspace (CHR ''_'')"
  by (simp add: py_isspace_def)

lemma space_is_space: "py_isspace (CHR '' '')"
  by (simp add: py_isspace_def)

lemma last_dropWhile_nonempty:
  "dropWhile P xs \<noteq> [] \<Longrightarrow> last (dropWhile P xs) = last xs"
  by (induction xs) auto

lemma py_strip_ends:
  assumes "py_strip s \<noteq> []"
  shows "\<not> py_isspace (hd (py_strip s)) \<and> \<not> py_isspace (last (py_strip s))"
proof -
  let ?d = "dropWhile py_isspace s"
  let ?e = "dropWhile py_isspace (rev ?d)"
  from assms have e: "?e \<noteq> []" by (simp add: py_strip_def)
  then have d: "?d \<noteq> []" by (cases "?d") auto
  have "last (py_strip s) = hd ?e" using e by (simp add: py_strip_def last_rev)
  moreover have "\<not> py_isspace (hd ?e)" using e by (rule hd_dropWhile)
  moreover have "hd (py_strip s) = last ?e" using e by (simp add: py_strip_def hd_rev)
  moreover have "last ?e = last (rev ?d)" using e by (rule last_dropWhile_nonempty)
  moreover have "last (rev ?d) = hd ?d" using d by (simp add: last_rev)
  moreover have "\<not> py_isspace (hd ?d)" using d by (rule hd_dropWhile)
  ultimately show ?thesis by simp
qed

lemma py_strip_fixed:
  assumes "u \<noteq> [] \<Longrightarrow> \<not> py_isspace (hd u) \<and> \<not> py_isspace (last u)"
  shows "py_strip u = u"
proof (cases "u = []")
  case True
  then show ?thesis by (simp add: py_strip_def)
next
  case False
  with assms have h: "\<not> py_isspace (hd u)" and l: "\<not> py_isspace (last u)" by auto
  from h False have "dropWhile py_isspace u = u" by (cases u) auto
  moreover from l False have "dropWhile py_isspace (rev u) = rev u"
    by (cases "rev u") (auto simp: last_rev)
  ultimately show ?thesis by (simp add: py_strip_def)
qed

lemma replace_space_keeps_nonspace:
  "\<not> py_isspace c \<Longrightarrow> (if c = CHR '' '' then CHR ''_'' else c) = c"
  using space_is_space by auto

lemma py_strip_replace_space: "py_strip (replace_space (py_strip s)) = replace_space (py_strip s)"
proof (rule py_strip_fixed)
  assume ne: "replace_space (py_strip s) \<noteq> []"
  then have t: "py_strip s \<noteq> []" by (simp add: replace_space_def)
  from py_strip_ends [OF t] have h: "\<not> py_isspace (hd (py_strip s))" and l: "\<not> py_isspace (last (py_strip s))"
    by auto
  have "hd (replace_space (py_strip s)) = hd (py_strip s)"
    using t h space_is_space by (auto simp: replace_space_def hd_map)
  moreover have "last (replace_space (py_strip s)) = last (py_strip s)"
    using t l space_is_space by (auto simp: replace_space_def last_map)
  ultimately show "\<not> py_isspace (hd (replace_space (py_strip s))) \<and> \<not> py_isspace (last (replace_space (py_strip s)))"
    using h l by simp
qed

lemma replace_space_idem: "replace_space (replace_space s) = replace_space s"
  by (simp add: replace_space_def)

text \<open>
  C4. The normalisation of a column label (strip, then every space replaced by an
  underscore; a label that is not a string unchanged) is idempotent.
\<close>

theorem normalize_column_idempotent:
  "normalize_column (normalize_column c) = normalize_column c"
  by (cases c) (simp_all add: py_strip_replace_space replace_space_idem)

section \<open>Properties of tables\<close>


lemma positions_from_empty_iff: "positions_from i c cs = [] \<longleftrightarrow> c \<notin> set cs"
  by (induction cs arbitrary: i) auto

lemma positions_empty_iff: "positions c cs = [] \<longleftrightarrow> c \<notin> set cs"
  by (simp add: positions_def positions_from_empty_iff)


lemma getitem_absent: "c \<notin> set (columns df) \<Longrightarrow> getitem df c = Inl KeyError"
  using positions_empty_iff [of c "columns df"] by (simp add: getitem_def)




section \<open>filter\_data keeps the matching rows\<close>




section \<open>load\_data falls back to Unknown\<close>

lemma known_algs_lower_all: "list_all (\<lambda>ka. py_lower ka \<in> set fallback_tokens) known_algs"
  by code_simp

lemma known_algs_lower: "ka \<in> set known_algs \<Longrightarrow> py_lower ka \<in> set fallback_tokens"
  using known_algs_lower_all by (simp add: list_all_iff)

lemma py_in_lower: "py_in t s \<Longrightarrow> py_in (py_lower t) (py_lower s)"
  by (simp add: py_in_def py_lower_def map_mono_sublist)

lemma alg_from_name_none:
  assumes "\<forall>t\<in>set fallback_tokens. \<not> py_in t (py_lower fname)"
  shows "alg_from_name fname = None"
proof -
  have "\<not> py_in ka fname" if "ka \<in> set known_algs" for ka
    using that assms known_algs_lower py_in_lower by blast
  then have "find (\<lambda>ka. py_in ka fname) known_algs = None"
    by (simp add: find_None_iff)
  moreover have "\<not> py_in t (py_lower fname)" if "t \<in> set fallback_tokens" for t
    using that assms by blast
  then have "\<not> py_in ''adr-lite'' (py_lower fname)" "\<not> py_in ''adr-avg'' (py_lower fname)"
    "\<not> py_in ''adr_avg'' (py_lower fname)" "\<not> py_in ''adr-max'' (py_lower fname)"
    "\<not> py_in ''adr_max'' (py_lower fname)" "\<not> py_in ''no-adr'' (py_lower fname)"
    "\<not> py_in ''no_adr'' (py_lower fname)"
    by (simp_all add: fallback_tokens_def)
  ultimately show ?thesis by (simp add: alg_from_name_def)
qed

lemma positions_from_new: "c \<notin> set cs \<Longrightarrow> positions_from i c (cs @ [c]) = [i + length cs]"
  by (induction cs arbitrary: i) auto

lemma length_fit: "length (fit n r) = n"
  by (simp add: fit_def)

lemma setitem_rows_new:
  "setitem_rows n [] k vs rs = map (\<lambda>(j, r). fit n r @ [vs j]) (zip [k..<k + length rs] rs)"
proof (induction rs arbitrary: k)
  case Nil
  then show ?case by simp
next
  case (Cons r rs)
  have "[k..<k + length (r # rs)] = k # [Suc k..<Suc k + length rs]"
    by (simp add: upt_rec)
  then show ?case using Cons.IH [of "Suc k"] by simp
qed

lemma setitem_scalar_new:
  assumes "c \<notin> set (columns df)"
  shows "setitem_scalar df c v
           = \<lparr>columns = columns df @ [c], rows = map (\<lambda>r. fit (length (columns df)) r @ [v]) (rows df)\<rparr>"
proof -
  have "map (\<lambda>(j, r). fit n r @ [v]) (zip [0..<0 + length rs] rs) = map (\<lambda>r. fit n r @ [v]) rs" for n rs
    by (rule nth_equalityI) simp_all
  with assms show ?thesis
    using positions_empty_iff [of c "columns df"]
    by (simp add: setitem_scalar_def setitem_def setitem_rows_new)
qed

lemma getitem_setitem_scalar_new:
  assumes "c \<notin> set (columns df)"
  shows "getitem (setitem_scalar df c v) c = Inr (replicate (length (rows df)) v)"
proof -
  have "positions c (columns df @ [c]) = [length (columns df)]"
    using assms by (simp add: positions_def positions_from_new)
  moreover have "cell_of (fit (length (columns df)) r @ [v]) (length (columns df)) = v" for r
    by (simp add: cell_of_def length_fit nth_append)
  ultimately show ?thesis
    using assms by (simp add: setitem_scalar_new getitem_def map_replicate_const comp_def)
qed

lemma copy_candidate_none:
  assumes "\<forall>c\<in>set candidate_columns. LStr c \<notin> set (columns df)"
  shows "copy_candidate df = Inr df"
proof -
  from assms have "find (\<lambda>c. LStr c \<in> set (columns df)) candidate_columns = None"
    by (simp add: find_None_iff)
  then show ?thesis by (simp add: copy_candidate_def)
qed

text \<open>
  C3. When the normalised labels hold neither \<open>alg\<close> nor one of the four candidate
  labels, and the name of the file holds none of the algorithm tokens (matched as the
  function matches them, without regard to case), \<open>load_data\<close> returns a table with as
  many rows as the file has, whose \<open>alg\<close> column is \<open>Unknown\<close> on every row.
\<close>

theorem load_data_unknown:
  assumes "read_csv file_path = Inr raw"
    and "alg \<notin> set (map normalize_column (columns raw))"
    and "\<forall>c\<in>set candidate_columns. LStr c \<notin> set (map normalize_column (columns raw))"
    and "\<forall>t\<in>set fallback_tokens. \<not> py_in t (py_lower (path_name (Path file_path)))"
  shows "\<exists>df. load_data read_csv file_path = Inr df
           \<and> length (rows df) = length (rows raw)
           \<and> getitem df alg = Inr (replicate (length (rows raw)) (Str ''Unknown''))"
proof -
  let ?df = "normalize_columns raw"
  have cols: "columns ?df = map normalize_column (columns raw)" and rws: "rows ?df = rows raw"
    by (simp_all add: normalize_columns_def)
  have no_alg: "alg \<notin> set (columns ?df)" using assms(2) cols by simp
  have "copy_candidate ?df = Inr ?df"
    using assms(3) cols by (intro copy_candidate_none) simp
  moreover have "alg_from_name (path_name (Path file_path)) = None"
    using assms(4) by (rule alg_from_name_none)
  ultimately have "load_data read_csv file_path = Inr (setitem_scalar ?df alg (Str ''Unknown''))"
    using assms(1) no_alg by (simp add: load_data_def load_data_frame_def)
  moreover have "getitem (setitem_scalar ?df alg (Str ''Unknown'')) alg
                   = Inr (replicate (length (rows raw)) (Str ''Unknown''))"
    using getitem_setitem_scalar_new [OF no_alg] rws by simp
  moreover have "length (rows (setitem_scalar ?df alg (Str ''Unknown''))) = length (rows raw)"
    using setitem_scalar_new [OF no_alg] rws by simp
  ultimately show ?thesis by simp
qed

lemma sublist_eval:
  "sublist (x # xs) (y # ys) \<longleftrightarrow> prefix (x # xs) (y # ys) \<or> sublist (x # xs) ys"
  by (rule sublist_code)

theorem load_data_unknown_witness:
  "one_file ''results/summary_density_run1.csv'' = Inr raw_table
   \<and> alg \<notin> set (map normalize_column (columns raw_table))
   \<and> list_all (\<lambda>c. LStr c \<notin> set (map normalize_column (columns raw_table))) candidate_columns
   \<and> list_all (\<lambda>t. \<not> py_in t (py_lower (path_name (Path ''results/summary_density_run1.csv''))))
         fallback_tokens
   \<and> (\<exists>df. load_data one_file ''results/summary_density_run1.csv'' = Inr df
           \<and> length (rows df) = 2
           \<and> getitem df alg = Inr [Str ''Unknown'', Str ''Unknown''])"
proof -
  have a: "one_file ''results/summary_density_run1.csv'' = Inr raw_table"
    by (simp add: one_file_def)
  have n: "map normalize_column (columns raw_table) = [LStr ''Num_Devices'', LStr ''PDR_Percent'']"
    by (simp add: raw_table_def py_strip_def py_isspace_def replace_space_def)
  have b: "alg \<notin> set (map normalize_column (columns raw_table))"
    unfolding n by (simp add: alg_def)
  have c: "\<forall>c\<in>set candidate_columns. LStr c \<notin> set (map normalize_column (columns raw_table))"
    unfolding n by (simp add: candidate_columns_def)
  have nm: "py_lower (path_name (Path ''results/summary_density_run1.csv'')) = ''summary_density_run1.csv''"
    by code_simp
  have d: "\<forall>t\<in>set fallback_tokens. \<not> py_in t (py_lower (path_name (Path ''results/summary_density_run1.csv'')))"
    unfolding nm by (simp add: fallback_tokens_def py_in_def sublist_eval)
  have l: "length (rows raw_table) = 2" by (simp add: raw_table_def)
  from load_data_unknown [of one_file "''results/summary_density_run1.csv''" raw_table, OF a b c d] a b c d
  show ?thesis
    by (simp add: l numeral_2_eq_2 list_all_iff)
qed

section \<open>Removing duplicates\<close>

lemma set_unique: "set (unique xs) = set xs"
  by (induction xs) auto

lemma distinct_unique: "distinct (unique xs)"
  by (induction xs) (auto simp: set_unique)

lemma unique_append: "unique (xs @ ys) = unique xs @ filter (\<lambda>y. y \<notin> set xs) (unique ys)"
proof (induction xs)
  case Nil
  then show ?case by simp
next
  case (Cons x xs)
  have "filter (\<lambda>y. y \<noteq> x) (filter (\<lambda>y. y \<notin> set xs) zs) = filter (\<lambda>y. y \<notin> set (x # xs)) zs" for zs
    by (induction zs) auto
  with Cons show ?case by simp
qed

lemma dedup_loop_unique:
  "snd (dedup_loop ps (set u, u)) = u @ filter (\<lambda>p. p \<notin> set u) (unique ps)"
proof (induction ps arbitrary: u)
  case Nil
  then show ?case by simp
next
  case (Cons p ps)
  show ?case
  proof (cases "p \<in> set u")
    case True
    then have "filter (\<lambda>q. q \<notin> set u) (filter (\<lambda>y. y \<noteq> p) zs)
                 = filter (\<lambda>q. q \<notin> set u) zs" for zs
      by (induction zs) auto
    with True Cons.IH [of u] show ?thesis by (simp del: filter_filter)
  next
    case False
    have "set (u @ [p]) = insert p (set u)" by simp
    then have "snd (dedup_loop ps (insert p (set u), u @ [p]))
                 = (u @ [p]) @ filter (\<lambda>q. q \<notin> set (u @ [p])) (unique ps)"
      using Cons.IH [of "u @ [p]"] by simp
    moreover have "filter (\<lambda>q. q \<notin> set (u @ [p])) (unique ps)
                     = filter (\<lambda>q. q \<notin> set u) (filter (\<lambda>y. y \<noteq> p) (unique ps))"
      by (induction "unique ps") auto
    ultimately show ?thesis using False by simp
  qed
qed

lemma find_all_summary_paths_unique:
  "find_all_summary_paths fs repo_root scenario = unique (collected_paths fs repo_root scenario)"
  using dedup_loop_unique [of "collected_paths fs repo_root scenario" "[]"]
  by (simp add: find_all_summary_paths_def)

lemma first_index_filter:
  "x \<in> set zs \<Longrightarrow> y \<in> set zs \<Longrightarrow> P x \<Longrightarrow> P y \<Longrightarrow>
     (first_index (filter P zs) x < first_index (filter P zs) y)
       = (first_index zs x < first_index zs y)"
  by (induction zs) auto

lemma first_index_unique:
  "x \<in> set xs \<Longrightarrow> y \<in> set xs \<Longrightarrow>
     (first_index (unique xs) x < first_index (unique xs) y) = (first_index xs x < first_index xs y)"
proof (induction xs)
  case Nil
  then show ?case by simp
next
  case (Cons a xs)
  show ?case
  proof (cases "x = a \<or> y = a")
    case True
    then show ?thesis by auto
  next
    case False
    with Cons.prems have m: "x \<in> set xs" "y \<in> set xs" by auto
    then have "x \<in> set (unique xs)" "y \<in> set (unique xs)" by (simp_all add: set_unique)
    with False have "(first_index (filter (\<lambda>z. z \<noteq> a) (unique xs)) x < first_index (filter (\<lambda>z. z \<noteq> a) (unique xs)) y)
                      = (first_index (unique xs) x < first_index (unique xs) y)"
      by (intro first_index_filter) auto
    with False Cons.IH [OF m] show ?thesis by auto
  qed
qed

text \<open>
  C10. The list \<open>find_all_summary_paths\<close> returns has no path twice, holds exactly the
  collected candidates, and orders them by their first occurrence among the candidates;
  what was found in the current directory comes first.
\<close>

theorem find_all_summary_paths_distinct_ordered:
  "distinct (find_all_summary_paths fs repo_root scenario)
   \<and> set (find_all_summary_paths fs repo_root scenario) = set (collected_paths fs repo_root scenario)
   \<and> (\<forall>x\<in>set (collected_paths fs repo_root scenario).
       \<forall>y\<in>set (collected_paths fs repo_root scenario).
         (first_index (find_all_summary_paths fs repo_root scenario) x
            < first_index (find_all_summary_paths fs repo_root scenario) y)
         = (first_index (collected_paths fs repo_root scenario) x
            < first_index (collected_paths fs repo_root scenario) y))
   \<and> prefix (unique (map path_str (glob fs (Path ''.'') (''*'' @ scenario @ ''*.csv''))))
        (find_all_summary_paths fs repo_root scenario)"
  by (simp add: find_all_summary_paths_unique distinct_unique set_unique first_index_unique)
     (simp add: collected_paths_def unique_append)

lemma example_collected:
  "collected_paths example_fs (Path ''/repo'') ''density''
     = [''summary_density_run1.csv'',
        ''resultsfinal/summaries/density/summary_density_run1.csv'',
        ''resultsfinal/summaries/density/summary_density_run2.csv'',
        ''resultsfinal/summaries/density/summary_density_run2.csv'',
        ''resultsfinal/summaries/density/summary_density_run1.csv'']"
  by code_simp

lemma example_found:
  "find_all_summary_paths example_fs (Path ''/repo'') ''density''
     = [''summary_density_run1.csv'',
        ''resultsfinal/summaries/density/summary_density_run1.csv'',
        ''resultsfinal/summaries/density/summary_density_run2.csv'']"
  by code_simp

theorem find_all_summary_paths_distinct_ordered_witness:
  "find_all_summary_paths example_fs (Path ''/repo'') ''density''
     = [''summary_density_run1.csv'',
        ''resultsfinal/summaries/density/summary_density_run1.csv'',
        ''resultsfinal/summaries/density/summary_density_run2.csv'']
   \<and> distinct (find_all_summary_paths example_fs (Path ''/repo'') ''density'')
   \<and> set (find_all_summary_paths example_fs (Path ''/repo'') ''density'')
       = set (collected_paths example_fs (Path ''/repo'') ''density'')
   \<and> first_index (collected_paths example_fs (Path ''/repo'') ''density'')
         ''resultsfinal/summaries/density/summary_density_run1.csv''
       < first_index (collected_paths example_fs (Path ''/repo'') ''density'')
         ''resultsfinal/summaries/density/summary_density_run2.csv''
   \<and> first_index (find_all_summary_paths example_fs (Path ''/repo'') ''density'')
         ''resultsfinal/summaries/density/summary_density_run1.csv''
       < first_index (find_all_summary_paths example_fs (Path ''/repo'') ''density'')
         ''resultsfinal/summaries/density/summary_density_run2.csv''"
proof -
  have m: "''resultsfinal/summaries/density/summary_density_run1.csv''
             \<in> set (collected_paths example_fs (Path ''/repo'') ''density'')"
    "''resultsfinal/summaries/density/summary_density_run2.csv''
             \<in> set (collected_paths example_fs (Path ''/repo'') ''density'')"
    by (simp_all add: example_collected)
  have o: "first_index (collected_paths example_fs (Path ''/repo'') ''density'')
         ''resultsfinal/summaries/density/summary_density_run1.csv''
       < first_index (collected_paths example_fs (Path ''/repo'') ''density'')
         ''resultsfinal/summaries/density/summary_density_run2.csv''"
    by (simp add: example_collected)
  from find_all_summary_paths_distinct_ordered [of example_fs "Path ''/repo''" "''density''"] m o
  show ?thesis
    by (simp add: example_found)
qed

section \<open>find\_summary\_path\<close>










section \<open>Grouped means\<close>











lemma row_value_same_columns: "columns g = columns df \<Longrightarrow> row_value g r c = row_value df r c"
  by (simp add: row_value_def)





section \<open>The loading loop of main\<close>

lemma load_found_state:
  "load_found rd ps st
     = \<lparr>df_list = df_list st @ loaded_frames rd ps,
        loaded_paths = loaded_paths st @ filter (\<lambda>p. \<not> isl (load_data rd p)) ps,
        failed_paths = failed_paths st @ failed_loads rd ps,
        total_rows = total_rows st + sum_list (map (\<lambda>d. length (rows d)) (loaded_frames rd ps))\<rparr>"
proof (induction ps arbitrary: st)
  case Nil
  then show ?case by (simp add: loaded_frames_def failed_loads_def)
next
  case (Cons p ps)
  show ?case
  proof (cases "load_data rd p")
    case (Inl e)
    then show ?thesis
      using Cons.IH [of "st\<lparr>failed_paths := failed_paths st @ [(p, e)]\<rparr>"]
      by (simp add: loaded_frames_def failed_loads_def)
  next
    case (Inr d)
    then show ?thesis
      using Cons.IH [of "st\<lparr>df_list := df_list st @ [d], loaded_paths := loaded_paths st @ [p],
                            total_rows := total_rows st + length (rows d)\<rparr>"]
      by (simp add: loaded_frames_def failed_loads_def)
  qed
qed

lemma df_list_load_found: "df_list (load_found rd ps loading_start) = loaded_frames rd ps"
  by (simp add: load_found_state loading_start_def)

lemma map_of_dict_set: "map_of (dict_set k v kvs) = (map_of kvs)(k \<mapsto> v)"
  by (induction kvs) auto

lemma snd_prepend: "snd (prepend t r) = snd r"
  by (simp add: prepend_def)

lemma fst_prepend: "fst (prepend t r) = t @ fst r"
  by (simp add: prepend_def)

lemma load_scenarios_step:
  "snd (load_scenarios w ((scenario, filename) # rest) dfs)
     = snd (load_scenarios w rest
         (case scenario_frame (loaded_frames (env_read_csv w)
                 (find_all_summary_paths (env_fs w) (env_repo_root w) scenario)) of
            None \<Rightarrow> dfs
          | Some d \<Rightarrow> dict_set scenario d dfs))"
proof (cases "find_all_summary_paths (env_fs w) (env_repo_root w) scenario = []")
  case True
  then show ?thesis
    by (simp add: snd_prepend loaded_frames_def scenario_frame_def)
next
  case False
  then show ?thesis
    by (simp add: Let_def snd_prepend df_list_load_found split: option.splits)
qed

lemma load_scenarios_lookup:
  assumes "distinct (map fst fl)"
  shows "map_of (snd (load_scenarios w fl dfs)) s
     = (if s \<in> set (map fst fl)
        then (case scenario_frame (loaded_frames (env_read_csv w)
                     (find_all_summary_paths (env_fs w) (env_repo_root w) s)) of
                None \<Rightarrow> map_of dfs s
              | Some d \<Rightarrow> Some d)
        else map_of dfs s)"
  using assms
proof (induction fl arbitrary: dfs)
  case Nil
  then show ?case by simp
next
  case (Cons sf fl)
  obtain scenario filename where sf: "sf = (scenario, filename)" by (cases sf)
  from Cons.prems sf have d: "distinct (map fst fl)" and n: "scenario \<notin> set (map fst fl)"
    by auto
  show ?case
    unfolding sf load_scenarios_step Cons.IH [OF d]
    using n by (auto simp: map_of_dict_set split: option.splits)
qed

text \<open>
  C7, as amended. In the loading loop of \<open>main\<close> every path that fails to load is
  recorded with its exception and the loop goes on; for every scenario the dictionary
  holds no table when no path loaded, and else the concatenation of the tables of exactly
  the paths that loaded or, when the concatenation itself raises, the first of these
  tables alone. When the dictionary is not empty and the output directory can be made,
  the run goes on to the plots with that dictionary.
\<close>

theorem main_loading_loop:
  "df_list (load_found rd ps loading_start) = loaded_frames rd ps
   \<and> failed_paths (load_found rd ps loading_start) = failed_loads rd ps
   \<and> loaded_paths (load_found rd ps loading_start) = filter (\<lambda>p. \<not> isl (load_data rd p)) ps
   \<and> (s \<in> set (map fst files_table) \<longrightarrow>
        map_of (snd (load_scenarios w files_table [])) s
          = (case loaded_frames (env_read_csv w)
                    (find_all_summary_paths (env_fs w) (env_repo_root w) s) of
               [] \<Rightarrow> None
             | first # others \<Rightarrow>
                 Some (case pd_concat (first # others) of Inr d \<Rightarrow> d | Inl e \<Rightarrow> first)))
   \<and> (snd (load_scenarios w files_table []) \<noteq> [] \<and> env_raises w (Mkdir ''output'') = None \<longrightarrow>
        Call (Generate_plots (snd (load_scenarios w files_table []))) \<in> set (fst (main_adr w)))"
proof (intro conjI impI)
  show "df_list (load_found rd ps loading_start) = loaded_frames rd ps"
    by (rule df_list_load_found)
  show "failed_paths (load_found rd ps loading_start) = failed_loads rd ps"
    by (simp add: load_found_state loading_start_def)
  show "loaded_paths (load_found rd ps loading_start) = filter (\<lambda>p. \<not> isl (load_data rd p)) ps"
    by (simp add: load_found_state loading_start_def)
next
  assume "s \<in> set (map fst files_table)"
  moreover have "distinct (map fst files_table)"
    by (simp add: files_table_def)
  ultimately show "map_of (snd (load_scenarios w files_table [])) s
          = (case loaded_frames (env_read_csv w)
                    (find_all_summary_paths (env_fs w) (env_repo_root w) s) of
               [] \<Rightarrow> None
             | first # others \<Rightarrow>
                 Some (case pd_concat (first # others) of Inr d \<Rightarrow> d | Inl e \<Rightarrow> first))"
    by (simp add: load_scenarios_lookup scenario_frame_def split: list.splits sum.splits)
next
  assume "snd (load_scenarios w files_table []) \<noteq> [] \<and> env_raises w (Mkdir ''output'') = None"
  then show "Call (Generate_plots (snd (load_scenarios w files_table []))) \<in> set (fst (main_adr w))"
    by (simp add: main_adr_def Let_def seq_def do_call_def)
qed


lemma runs_found:
  "find_all_summary_paths (env_fs runs_env) (env_repo_root runs_env) ''density''
     = [''density_run1.csv'', ''density_broken.csv'', ''density_run2.csv'']"
  by code_simp

lemma runs_failed:
  "failed_loads runs_reader [''density_run1.csv'', ''density_broken.csv'', ''density_run2.csv'']
     = [(''density_broken.csv'', ParserError)]"
  by code_simp

lemma runs_dictionary:
  "snd (load_scenarios runs_env files_table []) = [(''density'', runs_loaded)]"
  by code_simp

theorem main_loading_loop_witness:
  "''density'' \<in> set (map fst files_table)
   \<and> failed_paths (load_found runs_reader
          [''density_run1.csv'', ''density_broken.csv'', ''density_run2.csv''] loading_start)
       = [(''density_broken.csv'', ParserError)]
   \<and> map_of (snd (load_scenarios runs_env files_table [])) ''density'' = Some runs_loaded
   \<and> snd (load_scenarios runs_env files_table []) \<noteq> []
   \<and> env_raises runs_env (Mkdir ''output'') = None
   \<and> Call (Generate_plots [(''density'', runs_loaded)]) \<in> set (fst (main_adr runs_env))"
proof -
  have k: "''density'' \<in> set (map fst files_table)"
    by (simp add: files_table_def)
  have r: "env_raises runs_env (Mkdir ''output'') = None"
    by (simp add: runs_env_def no_raise_def)
  from main_loading_loop [of runs_reader "[''density_run1.csv'', ''density_broken.csv'', ''density_run2.csv'']"
      "''density''" runs_env] k r
  show ?thesis
    by (simp add: runs_dictionary runs_failed)
qed

text \<open>
  C7 as it is stated fails where the concatenation raises: two files load, the labels of
  the first are no longer distinct once normalised, and the table of the scenario is the
  first table alone.
\<close>

theorem main_loading_loop_counterexample:
  "loaded_frames (env_read_csv clash_env)
       (find_all_summary_paths (env_fs clash_env) (env_repo_root clash_env) ''density'')
     = [\<lparr>columns = [LStr ''x_y'', LStr ''x_y'', alg], rows = [[Num 1, Num 2, Str ''Unknown'']]\<rparr>,
        \<lparr>columns = [LStr ''z'', alg], rows = [[Num 3, Str ''Unknown'']]\<rparr>]
   \<and> pd_concat
        [\<lparr>columns = [LStr ''x_y'', LStr ''x_y'', alg], rows = [[Num 1, Num 2, Str ''Unknown'']]\<rparr>,
         \<lparr>columns = [LStr ''z'', alg], rows = [[Num 3, Str ''Unknown'']]\<rparr>]
       = Inl InvalidIndexError
   \<and> map_of (snd (load_scenarios clash_env files_table [])) ''density''
       = Some \<lparr>columns = [LStr ''x_y'', LStr ''x_y'', alg], rows = [[Num 1, Num 2, Str ''Unknown'']]\<rparr>"
  by code_simp

section \<open>Stopping when there is no data\<close>

lemma no_plot_prepend:
  "list_all (\<lambda>e. \<not> is_plot e) t \<Longrightarrow> list_all (\<lambda>e. \<not> is_plot e) (fst r)
     \<Longrightarrow> list_all (\<lambda>e. \<not> is_plot e) (fst (prepend t r))"
  by (simp add: prepend_def)

lemma no_plot_load_scenarios: "list_all (\<lambda>e. \<not> is_plot e) (fst (load_scenarios w fl dfs))"
proof (induction fl arbitrary: dfs)
  case Nil
  then show ?case by simp
next
  case (Cons sf fl)
  obtain scenario filename where sf: "sf = (scenario, filename)" by (cases sf)
  show ?case
    unfolding sf using Cons.IH
    by (auto simp: Let_def intro!: no_plot_prepend split: option.splits)
qed

lemma no_plot_seq:
  "list_all (\<lambda>e. \<not> is_plot e) (fst a) \<Longrightarrow> list_all (\<lambda>e. \<not> is_plot e) (fst b)
     \<Longrightarrow> list_all (\<lambda>e. \<not> is_plot e) (fst (seq a b))"
  by (simp add: seq_def split: option.splits)

lemma no_plot_say: "list_all (\<lambda>e. \<not> is_plot e) (fst (say m))"
  by (simp add: say_def)

lemma no_plot_print_sorted_unique: "list_all (\<lambda>e. \<not> is_plot e) (fst (print_sorted_unique df c))"
  by (simp add: print_sorted_unique_def say_def split: sum.splits)

lemma no_plot_print_unique: "list_all (\<lambda>e. \<not> is_plot e) (fst (print_unique df c))"
  by (simp add: print_unique_def say_def split: sum.splits)

lemma no_plot_get_unique_values: "list_all (\<lambda>e. \<not> is_plot e) (fst (get_unique_values df))"
  unfolding get_unique_values_def
  by (intro no_plot_seq no_plot_say no_plot_print_sorted_unique no_plot_print_unique)

lemma nothing_loaded_empty:
  assumes "\<forall>s\<in>set (map fst files_table).
             loaded_frames (env_read_csv w) (find_all_summary_paths (env_fs w) (env_repo_root w) s) = []"
  shows "snd (load_scenarios w files_table []) = []"
proof -
  have d: "distinct (map fst files_table)" by (simp add: files_table_def)
  have "map_of (snd (load_scenarios w files_table [])) s = None" for s
  proof (cases "s \<in> set (map fst files_table)")
    case True
    with assms have "loaded_frames (env_read_csv w)
        (find_all_summary_paths (env_fs w) (env_repo_root w) s) = []"
      by blast
    with True show ?thesis
      by (simp add: load_scenarios_lookup [OF d] scenario_frame_def)
  next
    case False
    then show ?thesis by (simp add: load_scenarios_lookup [OF d])
  qed
  then have "map_of (snd (load_scenarios w files_table [])) = Map.empty" by (rule ext)
  then show ?thesis by simp
qed

text \<open>
  C8. When no file loads for any scenario, \<open>main\<close> of \<open>plot_adr_final.py\<close> prints its
  error message last and returns: it raises nothing and draws nothing. When the table
  loads, the run is neither \<open>--list\<close> nor \<open>--all\<close> and the filter leaves an empty table,
  \<open>main\<close> of \<open>plot_density_scenario.py\<close> prints its two error lines last and returns: it
  raises nothing and draws nothing.
\<close>

theorem no_data_stops:
  "((\<forall>s\<in>set (map fst files_table).
        loaded_frames (env_read_csv w) (find_all_summary_paths (env_fs w) (env_repo_root w) s) = [])
     \<longrightarrow> main_adr w
           = ([Print Titre, Print Chargement_des_donnees] @ fst (load_scenarios w files_table [])
                @ [Print Aucun_fichier_de_donnees], None)
         \<and> list_all (\<lambda>e. \<not> is_plot e) (fst (main_adr w)))
   \<and> (read_csv (arg_csv a) = Inr df \<and> \<not> arg_list a \<and> \<not> arg_all a
       \<and> snd (get_unique_values df) = None
       \<and> filter_data df (arg_mobility a) (arg_interval a) (arg_loss a) = Inr filtered
       \<and> frame_empty filtered
     \<longrightarrow> main_density read_csv orc a
           = (Print (Chargement (arg_csv a)) # fst (get_unique_values df)
                @ [Print (Filtrage (arg_mobility a) (arg_interval a) (arg_loss a)),
                   Print ERREUR_aucune_donnee, Print Utilisez_list], None)
         \<and> list_all (\<lambda>e. \<not> is_plot e) (fst (main_density read_csv orc a)))"
proof (intro conjI impI)
  assume h: "\<forall>s\<in>set (map fst files_table).
        loaded_frames (env_read_csv w) (find_all_summary_paths (env_fs w) (env_repo_root w) s) = []"
  then show m: "main_adr w
           = ([Print Titre, Print Chargement_des_donnees] @ fst (load_scenarios w files_table [])
                @ [Print Aucun_fichier_de_donnees], None)"
    by (simp add: main_adr_def Let_def nothing_loaded_empty)
  show "list_all (\<lambda>e. \<not> is_plot e) (fst (main_adr w))"
    unfolding m using no_plot_load_scenarios [of w files_table "[]"] by simp
next
  assume h: "read_csv (arg_csv a) = Inr df \<and> \<not> arg_list a \<and> \<not> arg_all a
       \<and> snd (get_unique_values df) = None
       \<and> filter_data df (arg_mobility a) (arg_interval a) (arg_loss a) = Inr filtered
       \<and> frame_empty filtered"
  then show m: "main_density read_csv orc a
           = (Print (Chargement (arg_csv a)) # fst (get_unique_values df)
                @ [Print (Filtrage (arg_mobility a) (arg_interval a) (arg_loss a)),
                   Print ERREUR_aucune_donnee, Print Utilisez_list], None)"
    by (simp add: main_density_def load_data_density_def seq_def say_def)
  show "list_all (\<lambda>e. \<not> is_plot e) (fst (main_density read_csv orc a))"
    unfolding m using no_plot_get_unique_values [of df] by simp
qed

lemma empty_env_found: "find_all_summary_paths (env_fs empty_env) (env_repo_root empty_env) s = []"
  by (simp add: empty_env_def find_all_summary_paths_def collected_paths_def collect_base_def
      nothing_found_def Let_def)

lemma empty_env_trace:
  "fst (load_scenarios empty_env files_table [])
     = [Print (Aucun_fichier_trouve ''mobilite''), Print (Aucun_fichier_trouve ''density''),
        Print (Aucun_fichier_trouve ''intervalle_d_envoie''), Print (Aucun_fichier_trouve ''sigma'')]"
  by (simp add: files_table_def empty_env_found prepend_def)

lemma lossy_unique_values:
  "get_unique_values density_table
     = ([Print Valeurs_header, Print (Valeurs MobilitySpeed), Print (Valeurs TrafficInterval),
         Print (Valeurs MaxRandomLoss), Print (Valeurs NumDevices), Print (Valeurs Algorithm),
         Print Valeurs_footer], None)"
  by code_simp

lemma lossy_filter:
  "filter_data density_table (Num 0) (Num 3600) (Num 1)
     = Inr \<lparr>columns = columns density_table, rows = []\<rparr>"
  by code_simp

theorem no_data_stops_witness:
  "list_all (\<lambda>s. loaded_frames (env_read_csv empty_env)
                    (find_all_summary_paths (env_fs empty_env) (env_repo_root empty_env) s) = [])
      (map fst files_table)
   \<and> main_adr empty_env
       = ([Print Titre, Print Chargement_des_donnees,
           Print (Aucun_fichier_trouve ''mobilite''), Print (Aucun_fichier_trouve ''density''),
           Print (Aucun_fichier_trouve ''intervalle_d_envoie''), Print (Aucun_fichier_trouve ''sigma''),
           Print Aucun_fichier_de_donnees], None)
   \<and> density_reader (arg_csv lossy_args) = Inr density_table
   \<and> \<not> arg_list lossy_args \<and> \<not> arg_all lossy_args
   \<and> snd (get_unique_values density_table) = None
   \<and> filter_data density_table (arg_mobility lossy_args) (arg_interval lossy_args) (arg_loss lossy_args)
       = Inr \<lparr>columns = columns density_table, rows = []\<rparr>
   \<and> frame_empty \<lparr>columns = columns density_table, rows = []\<rparr>
   \<and> main_density density_reader no_raise lossy_args
       = ([Print (Chargement ''summaries/summary_scenario1.csv''),
           Print Valeurs_header, Print (Valeurs MobilitySpeed), Print (Valeurs TrafficInterval),
           Print (Valeurs MaxRandomLoss), Print (Valeurs NumDevices), Print (Valeurs Algorithm),
           Print Valeurs_footer,
           Print (Filtrage (Num 0) (Num 3600) (Num 1)),
           Print ERREUR_aucune_donnee, Print Utilisez_list], None)"
proof -
  have a: "\<forall>s\<in>set (map fst files_table).
             loaded_frames (env_read_csv empty_env)
               (find_all_summary_paths (env_fs empty_env) (env_repo_root empty_env) s) = []"
    by (simp add: empty_env_found loaded_frames_def)
  have b: "density_reader (arg_csv lossy_args) = Inr density_table"
    "\<not> arg_list lossy_args" "\<not> arg_all lossy_args"
    "arg_mobility lossy_args = Num 0" "arg_interval lossy_args = Num 3600" "arg_loss lossy_args = Num 1"
    "arg_csv lossy_args = ''summaries/summary_scenario1.csv''"
    by (simp_all add: lossy_args_def default_args_def density_reader_def)
  have e: "frame_empty \<lparr>columns = columns density_table, rows = []\<rparr>"
    by (simp add: frame_empty_def)
  from no_data_stops [of empty_env density_reader lossy_args density_table
      "\<lparr>columns = columns density_table, rows = []\<rparr>" no_raise] a b e
  show ?thesis
    by (simp add: empty_env_trace lossy_unique_values lossy_filter list_all_iff)
qed

section \<open>Assigning to a column that exists\<close>












section \<open>Missing files and empty filtered tables\<close>









section \<open>plot\_energy\_efficiency changes its argument\<close>

text \<open>
  C6 fails on the code. \<open>plot_energy_efficiency\<close> leaves its caller's table with one more
  column, \<open>Efficiency\<close>.
\<close>

theorem plot_energy_efficiency_adds_column:
  "fst (plot_energy_efficiency runs_env adr_table ''density'' ''output'')
     = \<lparr>columns = [alg, NumDevices, PDR_Percent, AvgEnergy_mJ, Efficiency],
        rows = [[Str ''ADR-MAX'', Num 100, Num 90, Num 3, Num 30],
                [Str ''ADR-MAX'', Num 100, Num 80, Num 5, Num 16],
                [Str ''No-ADR'', Num 100, Num 50, Num 4, Num (25 / 2)],
                [Str ''ADR-MAX'', Num 200, Num 70, Num 2, Num 35],
                [Str ''No-ADR'', Num 200, NaN, Num 2, NaN]]\<rparr>
   \<and> columns adr_table = [alg, NumDevices, PDR_Percent, AvgEnergy_mJ]
   \<and> snd (snd (plot_energy_efficiency runs_env adr_table ''density'' ''output'')) = None"
  by code_simp

end
